theory Spec2Isabelle
  imports Main
begin

section \<open>JavaScript values and strings used by the decoder\<close>

text \<open>
  The program is \<^verbatim>\<open>decoder.js\<close>, a single class \<^verbatim>\<open>TronTxDecoder\<close>. A JavaScript string is
  modelled as a \<^typ>\<open>string\<close>, one \<^typ>\<open>char\<close> per UTF-16 code unit, which covers the code units
  below 256; ABI identifiers, type names, hexadecimal payloads and status words are all of
  that kind. Strings that the program builds with \<^verbatim>\<open>String.fromCharCode\<close> or by decoding UTF-8
  can hold larger code units and are modelled as lists of code units (\<^typ>\<open>nat list\<close>).
  A byte of a \<^verbatim>\<open>Buffer\<close> is a natural number below 256.
\<close>

type_synonym code_units = "nat list"

datatype jsname = NameAbsent | NameNull | NameStr string

text \<open>One parameter of an ABI entry: \<^verbatim>\<open>{name, type, components}\<close>, each field optional.\<close>

datatype abi_param =
  AbiParam (p_name: jsname) (p_type: "string option") (p_components: "abi_param list option")

text \<open>One entry of the ABI array: \<^verbatim>\<open>{type, name, inputs, outputs}\<close>.\<close>

record abi_entry =
  e_type :: "string option"
  e_name :: jsname
  e_inputs :: "abi_param list option"
  e_outputs :: "abi_param list option"

text \<open>
  The values that travel through \<^verbatim>\<open>_handleInputs\<close> and the type lists: \<^verbatim>\<open>undefined\<close>,
  a string, a parameter object, or an array of parameter objects.
\<close>

datatype jsv = Undefined | Str string | Obj abi_param | Arr "abi_param list"

fun intercalate :: "string \<Rightarrow> string list \<Rightarrow> string" where
  "intercalate sep [] = []"
| "intercalate sep [s] = s"
| "intercalate sep (s # t # ts) = s @ sep @ intercalate sep (t # ts)"

text \<open>
  \<^verbatim>\<open>Array.prototype.join(',')\<close>: an element that is \<^verbatim>\<open>undefined\<close> contributes the empty
  string, every other element its \<^verbatim>\<open>ToString\<close>.
\<close>

fun join_element :: "jsv \<Rightarrow> string" where
  "join_element Undefined = []"
| "join_element (Str s) = s"
| "join_element (Obj p) = ''[object Object]''"
| "join_element (Arr xs) = intercalate '','' (map (\<lambda>x. ''[object Object]'') xs)"

definition js_join :: "jsv list \<Rightarrow> string" where
  "js_join xs = intercalate '','' (map join_element xs)"

text \<open>\<^verbatim>\<open>v + '[]'\<close> for a value \<^verbatim>\<open>v\<close>: string concatenation after \<^verbatim>\<open>ToString\<close>.\<close>

fun js_to_string :: "jsv \<Rightarrow> string" where
  "js_to_string Undefined = ''undefined''"
| "js_to_string v = join_element v"

definition js_plus :: "jsv \<Rightarrow> string \<Rightarrow> string" where
  "js_plus v s = js_to_string v @ s"

text \<open>\<^verbatim>\<open>x.type\<close> and \<^verbatim>\<open>x.components\<close> read as values.\<close>

definition type_value :: "abi_param \<Rightarrow> jsv" where
  "type_value x = (case p_type x of None \<Rightarrow> Undefined | Some t \<Rightarrow> Str t)"

definition components_value :: "abi_param \<Rightarrow> jsv" where
  "components_value x = (case p_components x of None \<Rightarrow> Undefined | Some cs \<Rightarrow> Arr cs)"

section \<open>The type canonicalizer \<^verbatim>\<open>_handleInputs\<close>\<close>

text \<open>
  \<^verbatim>\<open>handle_array tupleArray input\<close> is the part of \<^verbatim>\<open>_handleInputs\<close> that runs when \<^verbatim>\<open>input\<close>
  is an array (source lines 369 to 383): it builds \<^verbatim>\<open>ret\<close> and returns \<^verbatim>\<open>ret + '[]'\<close> when the
  flag \<^verbatim>\<open>tupleArray\<close> is set; otherwise the function body ends without a \<^verbatim>\<open>return\<close>, so the
  call yields \<^verbatim>\<open>undefined\<close>. \<^verbatim>\<open>handle_components c\<close> is the recursive call
  \<^verbatim>\<open>this._handleInputs(x.components)\<close>, where \<^verbatim>\<open>x.components\<close> is an array or absent.
\<close>

fun handle_array :: "bool \<Rightarrow> abi_param list \<Rightarrow> jsv"
  and handle_components :: "abi_param list option \<Rightarrow> jsv"
  and pushed :: "abi_param \<Rightarrow> jsv"
where
  "handle_array tupleArray input =
     (let ret = ''('' @ js_join (map pushed input) @ '')''
      in if tupleArray then Str (ret @ ''[]'') else Undefined)"
| "handle_components None = Undefined"
| "handle_components (Some cs) = handle_array False cs"
| "pushed (AbiParam n t c) =
     (if t = Some ''tuple'' then handle_components c
      else if t = Some ''tuple[]'' then Str (js_plus (handle_components c) ''[]'')
      else (case t of None \<Rightarrow> Undefined | Some s \<Rightarrow> Str s))"

text \<open>
  \<^verbatim>\<open>_handleInputs(input)\<close>: an object with (truthy) \<^verbatim>\<open>components\<close> is replaced by its
  components and sets \<^verbatim>\<open>tupleArray\<close>; a value that is not an array is returned as its
  \<^verbatim>\<open>type\<close> when it is an object with a truthy (non-empty) \<^verbatim>\<open>type\<close>, and unchanged otherwise.
\<close>

definition handleInputs :: "jsv \<Rightarrow> jsv" where
  "handleInputs input =
     (case input of
        Obj p \<Rightarrow>
          (case p_components p of
             Some cs \<Rightarrow> handle_array True cs
           | None \<Rightarrow> (case p_type p of
                        Some t \<Rightarrow> if t \<noteq> [] then Str t else input
                      | None \<Rightarrow> input))
      | Arr xs \<Rightarrow> handle_array False xs
      | _ \<Rightarrow> input)"

section \<open>Hexadecimal strings and buffers\<close>

definition hex_char :: "nat \<Rightarrow> char" where
  "hex_char d = ''0123456789abcdef'' ! d"

text \<open>The value of a hexadecimal digit, in either case; \<^verbatim>\<open>None\<close> for any other character.\<close>

definition hex_digit_value :: "char \<Rightarrow> nat option" where
  "hex_digit_value c =
     (let n = of_char c :: nat
      in if 48 \<le> n \<and> n \<le> 57 then Some (n - 48)
         else if 97 \<le> n \<and> n \<le> 102 then Some (n - 87)
         else if 65 \<le> n \<and> n \<le> 70 then Some (n - 55)
         else None)"

definition is_hex :: "char \<Rightarrow> bool" where
  "is_hex c = (hex_digit_value c \<noteq> None)"

text \<open>
  \<^verbatim>\<open>Buffer.from(s, 'hex')\<close>: two characters give one byte; decoding stops at the first pair
  that is not two hexadecimal digits, and a trailing single character is dropped.
\<close>

fun buffer_from_hex :: "string \<Rightarrow> nat list" where
  "buffer_from_hex (a # b # rest) =
     (case (hex_digit_value a, hex_digit_value b) of
        (Some h, Some l) \<Rightarrow> (16 * h + l) # buffer_from_hex rest
      | _ \<Rightarrow> [])"
| "buffer_from_hex _ = []"

text \<open>\<^verbatim>\<open>n.toString(16)\<close> for a non-negative integer.\<close>

fun toString16 :: "nat \<Rightarrow> string" where
  "toString16 n = (if n < 16 then [hex_char n] else toString16 (n div 16) @ [hex_char (n mod 16)])"

declare toString16.simps [simp del]

text \<open>\<^verbatim>\<open>('0' + (byte & 0xFF).toString(16)).slice(-2)\<close>\<close>

definition byte_hex :: "nat \<Rightarrow> string" where
  "byte_hex byte = (let s = CHR ''0'' # toString16 (byte mod 256) in drop (length s - 2) s)"

text \<open>\<^verbatim>\<open>data.replace(/^0x/, '')\<close>\<close>

fun strip_0x :: "string \<Rightarrow> string" where
  "strip_0x (a # b # rest) = (if a = CHR ''0'' \<and> b = CHR ''x'' then rest else a # b # rest)"
| "strip_0x s = s"

text \<open>\<^verbatim>\<open>s.includes('0x')\<close>: the two characters occur next to each other anywhere in \<^verbatim>\<open>s\<close>.\<close>

fun includes_0x :: "string \<Rightarrow> bool" where
  "includes_0x (a # b # rest) = ((a = CHR ''0'' \<and> b = CHR ''x'') \<or> includes_0x (b # rest))"
| "includes_0x _ = False"

text \<open>\<^verbatim>\<open>s.slice(2, 10)\<close>\<close>

definition slice_2_10 :: "string \<Rightarrow> string" where
  "slice_2_10 s = take 8 (drop 2 s)"

section \<open>Keccak-256\<close>

text \<open>
  \<^verbatim>\<open>utils.keccak256\<close> of the ethers library is the Keccak-256 hash (rate 1088 bits, padding
  \<^verbatim>\<open>pad10*1\<close> with the original Keccak domain byte 0x01). A lane is a list of 64 bits, least
  significant first; the state is the list of the 25 lanes, lane \<open>(x, y)\<close> at index
  \<open>x + 5 * y\<close>. A byte is a \<^typ>\<open>char\<close>, whose constructor lists its eight bits, least
  significant first.
\<close>

type_synonym lane = "bool list"

fun xorl :: "lane \<Rightarrow> lane \<Rightarrow> lane" where
  "xorl (a # as) (b # bs) = (a \<noteq> b) # xorl as bs"
| "xorl _ _ = []"

fun andnl :: "lane \<Rightarrow> lane \<Rightarrow> lane" where
  "andnl (a # as) (b # bs) = (\<not> a \<and> b) # andnl as bs"
| "andnl _ _ = []"

definition rotl64 :: "nat \<Rightarrow> lane \<Rightarrow> lane" where
  "rotl64 r w = drop (64 - r) w @ take (64 - r) w"

fun xor5 :: "lane list \<Rightarrow> lane list \<Rightarrow> lane list" where
  "xor5 (a # as) (b # bs) = xorl a b # xor5 as bs"
| "xor5 _ _ = []"

fun andn5 :: "lane list \<Rightarrow> lane list \<Rightarrow> lane list" where
  "andn5 (a # as) (b # bs) = andnl a b # andn5 as bs"
| "andn5 _ _ = []"

fun rotate_left :: "'a list \<Rightarrow> 'a list" where
  "rotate_left [] = []"
| "rotate_left (x # xs) = xs @ [x]"

fun planes :: "'a list \<Rightarrow> 'a list list" where
  "planes (a # b # c # d # e # rest) = [a, b, c, d, e] # planes rest"
| "planes _ = []"

fun parity :: "lane list list \<Rightarrow> lane list" where
  "parity [] = []"
| "parity [p] = p"
| "parity (p # q # ps) = xor5 p (parity (q # ps))"

definition theta :: "lane list \<Rightarrow> lane list" where
  "theta a =
     (let c = parity (planes a);
          c1 = rotate_left c;
          c4 = rotate_left (rotate_left (rotate_left c1));
          d = xor5 c4 (map (rotl64 1) c1)
      in concat (map (xor5 d) (planes a)))"

text \<open>For each target lane, the source lane of the permutation \<open>\<pi>\<close> and its rotation \<open>\<rho>\<close>.\<close>

definition keccak_rot :: "(nat \<times> nat) list" where
  "keccak_rot = [(0, 0), (6, 44), (12, 43), (18, 21), (24, 14),
                 (3, 28), (9, 20), (10, 3), (16, 45), (22, 61),
                 (1, 1), (7, 6), (13, 25), (19, 8), (20, 18),
                 (4, 27), (5, 36), (11, 10), (17, 15), (23, 56),
                 (2, 62), (8, 55), (14, 39), (15, 41), (21, 2)]"

definition rho_pi :: "lane list \<Rightarrow> lane list" where
  "rho_pi a = map (\<lambda>(src, r). rotl64 r (a ! src)) keccak_rot"

definition chi_row :: "lane list \<Rightarrow> lane list" where
  "chi_row b = (let b1 = rotate_left b; b2 = rotate_left b1 in xor5 b (andn5 b1 b2))"

definition chi :: "lane list \<Rightarrow> lane list" where
  "chi b = concat (map chi_row (planes b))"

fun iota :: "lane \<Rightarrow> lane list \<Rightarrow> lane list" where
  "iota rc [] = []"
| "iota rc (l # ls) = xorl l rc # ls"

definition keccak_round :: "lane list \<Rightarrow> lane \<Rightarrow> lane list" where
  "keccak_round a rc = iota rc (chi (rho_pi (theta a)))"

fun bits_of_byte :: "char \<Rightarrow> bool list" where
  "bits_of_byte (Char b0 b1 b2 b3 b4 b5 b6 b7) = [b0, b1, b2, b3, b4, b5, b6, b7]"

fun lanes_of_bytes :: "char list \<Rightarrow> lane list" where
  "lanes_of_bytes (c0 # c1 # c2 # c3 # c4 # c5 # c6 # c7 # rest) =
     concat (map bits_of_byte [c0, c1, c2, c3, c4, c5, c6, c7]) # lanes_of_bytes rest"
| "lanes_of_bytes _ = []"

fun bytes_of_bits :: "bool list \<Rightarrow> char list" where
  "bytes_of_bits (b0 # b1 # b2 # b3 # b4 # b5 # b6 # b7 # rest) =
     Char b0 b1 b2 b3 b4 b5 b6 b7 # bytes_of_bits rest"
| "bytes_of_bits _ = []"

text \<open>The 24 round constants, each as its eight bytes in little-endian order.\<close>

definition keccak_rc :: "lane list" where
  "keccak_rc = lanes_of_bytes (concat
    [[CHR 0x01, CHR 0x00, CHR 0x00, CHR 0x00, CHR 0x00, CHR 0x00, CHR 0x00, CHR 0x00],
     [CHR 0x82, CHR 0x80, CHR 0x00, CHR 0x00, CHR 0x00, CHR 0x00, CHR 0x00, CHR 0x00],
     [CHR 0x8A, CHR 0x80, CHR 0x00, CHR 0x00, CHR 0x00, CHR 0x00, CHR 0x00, CHR 0x80],
     [CHR 0x00, CHR 0x80, CHR 0x00, CHR 0x80, CHR 0x00, CHR 0x00, CHR 0x00, CHR 0x80],
     [CHR 0x8B, CHR 0x80, CHR 0x00, CHR 0x00, CHR 0x00, CHR 0x00, CHR 0x00, CHR 0x00],
     [CHR 0x01, CHR 0x00, CHR 0x00, CHR 0x80, CHR 0x00, CHR 0x00, CHR 0x00, CHR 0x00],
     [CHR 0x81, CHR 0x80, CHR 0x00, CHR 0x80, CHR 0x00, CHR 0x00, CHR 0x00, CHR 0x80],
     [CHR 0x09, CHR 0x80, CHR 0x00, CHR 0x00, CHR 0x00, CHR 0x00, CHR 0x00, CHR 0x80],
     [CHR 0x8A, CHR 0x00, CHR 0x00, CHR 0x00, CHR 0x00, CHR 0x00, CHR 0x00, CHR 0x00],
     [CHR 0x88, CHR 0x00, CHR 0x00, CHR 0x00, CHR 0x00, CHR 0x00, CHR 0x00, CHR 0x00],
     [CHR 0x09, CHR 0x80, CHR 0x00, CHR 0x80, CHR 0x00, CHR 0x00, CHR 0x00, CHR 0x00],
     [CHR 0x0A, CHR 0x00, CHR 0x00, CHR 0x80, CHR 0x00, CHR 0x00, CHR 0x00, CHR 0x00],
     [CHR 0x8B, CHR 0x80, CHR 0x00, CHR 0x80, CHR 0x00, CHR 0x00, CHR 0x00, CHR 0x00],
     [CHR 0x8B, CHR 0x00, CHR 0x00, CHR 0x00, CHR 0x00, CHR 0x00, CHR 0x00, CHR 0x80],
     [CHR 0x89, CHR 0x80, CHR 0x00, CHR 0x00, CHR 0x00, CHR 0x00, CHR 0x00, CHR 0x80],
     [CHR 0x03, CHR 0x80, CHR 0x00, CHR 0x00, CHR 0x00, CHR 0x00, CHR 0x00, CHR 0x80],
     [CHR 0x02, CHR 0x80, CHR 0x00, CHR 0x00, CHR 0x00, CHR 0x00, CHR 0x00, CHR 0x80],
     [CHR 0x80, CHR 0x00, CHR 0x00, CHR 0x00, CHR 0x00, CHR 0x00, CHR 0x00, CHR 0x80],
     [CHR 0x0A, CHR 0x80, CHR 0x00, CHR 0x00, CHR 0x00, CHR 0x00, CHR 0x00, CHR 0x00],
     [CHR 0x0A, CHR 0x00, CHR 0x00, CHR 0x80, CHR 0x00, CHR 0x00, CHR 0x00, CHR 0x80],
     [CHR 0x81, CHR 0x80, CHR 0x00, CHR 0x80, CHR 0x00, CHR 0x00, CHR 0x00, CHR 0x80],
     [CHR 0x80, CHR 0x80, CHR 0x00, CHR 0x00, CHR 0x00, CHR 0x00, CHR 0x00, CHR 0x80],
     [CHR 0x01, CHR 0x00, CHR 0x00, CHR 0x80, CHR 0x00, CHR 0x00, CHR 0x00, CHR 0x00],
     [CHR 0x08, CHR 0x80, CHR 0x00, CHR 0x80, CHR 0x00, CHR 0x00, CHR 0x00, CHR 0x80]])"

definition keccak_f :: "lane list \<Rightarrow> lane list" where
  "keccak_f a = foldl keccak_round a keccak_rc"

fun pad_to :: "nat \<Rightarrow> char list \<Rightarrow> char list" where
  "pad_to 0 m = []"
| "pad_to (Suc n) [] = CHR 0x00 # pad_to n []"
| "pad_to (Suc n) (c # m) = c # pad_to n m"

text \<open>The padding of a last block of fewer than 136 bytes.\<close>

definition pad101 :: "char list \<Rightarrow> char list" where
  "pad101 m = (if length m = 135 then m @ [CHR 0x81] else pad_to 135 (m @ [CHR 0x01]) @ [CHR 0x80])"

fun xor_state :: "lane list \<Rightarrow> lane list \<Rightarrow> lane list" where
  "xor_state (a # as) (b # bs) = xorl a b # xor_state as bs"
| "xor_state as [] = as"
| "xor_state [] bs = []"

fun absorb :: "lane list \<Rightarrow> char list \<Rightarrow> lane list" where
  "absorb a m =
     (if length m < 136 then keccak_f (xor_state a (lanes_of_bytes (pad101 m)))
      else absorb (keccak_f (xor_state a (lanes_of_bytes (take 136 m)))) (drop 136 m))"

declare absorb.simps [simp del]

definition keccak256_bytes :: "char list \<Rightarrow> char list" where
  "keccak256_bytes m = bytes_of_bits (concat (take 4 (absorb (replicate 25 (replicate 64 False)) m)))"

definition hex_digit :: "bool \<Rightarrow> bool \<Rightarrow> bool \<Rightarrow> bool \<Rightarrow> char" where
  "hex_digit b3 b2 b1 b0 =
     (if b3 then (if b2 then (if b1 then (if b0 then CHR ''f'' else CHR ''e'')
                              else (if b0 then CHR ''d'' else CHR ''c''))
                  else (if b1 then (if b0 then CHR ''b'' else CHR ''a'')
                        else (if b0 then CHR ''9'' else CHR ''8'')))
      else (if b2 then (if b1 then (if b0 then CHR ''7'' else CHR ''6'')
                        else (if b0 then CHR ''5'' else CHR ''4''))
            else (if b1 then (if b0 then CHR ''3'' else CHR ''2'')
                  else (if b0 then CHR ''1'' else CHR ''0''))))"

fun hex_of_byte :: "char \<Rightarrow> string" where
  "hex_of_byte (Char b0 b1 b2 b3 b4 b5 b6 b7) = [hex_digit b7 b6 b5 b4, hex_digit b3 b2 b1 b0]"

definition hexlify :: "char list \<Rightarrow> string" where
  "hexlify bs = concat (map hex_of_byte bs)"

text \<open>
  \<^verbatim>\<open>Buffer.from(input)\<close>: the UTF-8 encoding of a string. A code unit below 128 is one byte,
  one from 128 to 255 is the two bytes \<^verbatim>\<open>110000xx 10xxxxxx\<close>.
\<close>

fun utf8_encode_char :: "char \<Rightarrow> char list" where
  "utf8_encode_char (Char b0 b1 b2 b3 b4 b5 b6 b7) =
     (if b7 then [Char b6 b7 False False False False True True, Char b0 b1 b2 b3 b4 b5 False True]
      else [Char b0 b1 b2 b3 b4 b5 b6 b7])"

definition utf8_encode :: "string \<Rightarrow> char list" where
  "utf8_encode s = concat (map utf8_encode_char s)"

text \<open>\<^verbatim>\<open>utils.keccak256(bytes)\<close>: the digest as \<^verbatim>\<open>'0x'\<close> followed by 64 lowercase hex digits.\<close>

definition keccak256 :: "char list \<Rightarrow> string" where
  "keccak256 bytes = ''0x'' @ hexlify (keccak256_bytes bytes)"

section \<open>The selector \<^verbatim>\<open>_genMethodId\<close>\<close>

text \<open>
  The method name is \<^verbatim>\<open>obj.name || null\<close>: \<^verbatim>\<open>None\<close> stands for \<^verbatim>\<open>null\<close>, which the
  concatenation renders as the four characters \<^verbatim>\<open>null\<close>.
\<close>

definition method_string :: "string option \<Rightarrow> string" where
  "method_string m = (case m of None \<Rightarrow> ''null'' | Some s \<Rightarrow> s)"

definition genMethodId :: "string option \<Rightarrow> jsv list \<Rightarrow> string" where
  "genMethodId methodName types =
     (let input = method_string methodName @ ''('' @ js_join (map handleInputs types) @ '')''
      in slice_2_10 (keccak256 (utf8_encode input)))"

section \<open>The selector resolver \<^verbatim>\<open>_extractInfoFromABI\<close>\<close>

text \<open>
  A raised exception is a value: \<^verbatim>\<open>TypeError\<close> for reading a property of \<^verbatim>\<open>undefined\<close>,
  \<^verbatim>\<open>CodecError\<close> for whatever the ABI codec throws.
\<close>

datatype js_error = TypeError | CodecError string

text \<open>
  \<^verbatim>\<open>utils.defaultAbiCoder.decode(types, data)\<close> of the ethers library is a parameter of the
  model: it receives the type list and either a buffer or a string, and returns the decoded
  values or throws.
\<close>

datatype codec_arg = Bytes "nat list" | HexString string

type_synonym 'v codec = "jsv list \<Rightarrow> codec_arg \<Rightarrow> string + 'v list"

record 'v extract_info =
  method' :: "string option"
  typesInput :: "jsv list"
  inputs :: "'v list"
  namesInput :: "jsname list"
  typesOutput :: "jsv list"
  namesOutput :: "jsname list"

text \<open>\<^verbatim>\<open>obj.name || null\<close>\<close>

definition entry_method :: "abi_entry \<Rightarrow> string option" where
  "entry_method obj = (case e_name obj of NameStr s \<Rightarrow> if s \<noteq> [] then Some s else None | _ \<Rightarrow> None)"

text \<open>\<^verbatim>\<open>ps ? ps.map(x => x.type === 'tuple[]' ? x : x.type) : []\<close>\<close>

definition types_of :: "abi_param list option \<Rightarrow> jsv list" where
  "types_of ps =
     (case ps of None \<Rightarrow> []
      | Some xs \<Rightarrow> map (\<lambda>x. if p_type x = Some ''tuple[]'' then Obj x else type_value x) xs)"

text \<open>\<^verbatim>\<open>ps ? ps.map(x => x.type === 'tuple[]' ? '' : x.name) : []\<close>\<close>

definition names_of :: "abi_param list option \<Rightarrow> jsname list" where
  "names_of ps =
     (case ps of None \<Rightarrow> []
      | Some xs \<Rightarrow> map (\<lambda>x. if p_type x = Some ''tuple[]'' then NameStr [] else p_name x) xs)"

definition dataBuf :: "string \<Rightarrow> nat list" where
  "dataBuf data = buffer_from_hex (strip_0x data)"

definition methodId_of :: "string \<Rightarrow> string" where
  "methodId_of data = concat (map byte_hex (take 4 (dataBuf data)))"

definition inputsBuf_of :: "string \<Rightarrow> nat list" where
  "inputsBuf_of data = drop 4 (dataBuf data)"

text \<open>The object that the reducer returns for a matching entry.\<close>

definition info_of :: "abi_entry \<Rightarrow> 'v list \<Rightarrow> 'v extract_info" where
  "info_of obj vals =
     \<lparr>method' = entry_method obj, typesInput = types_of (e_inputs obj), inputs = vals,
      namesInput = names_of (e_inputs obj), typesOutput = types_of (e_outputs obj),
      namesOutput = names_of (e_outputs obj)\<rparr>"

text \<open>The callback of \<^verbatim>\<open>abi.reduce\<close> (source lines 300 to 351).\<close>

definition extract_step ::
  "'v codec \<Rightarrow> string \<Rightarrow> nat list \<Rightarrow> 'v extract_info \<Rightarrow> abi_entry \<Rightarrow> js_error + 'v extract_info"
where
  "extract_step codec methodId inputsBuf acc obj =
     (if e_type obj = Some ''constructor'' then Inr acc
      else if e_type obj = Some ''event'' then Inr acc
      else let hash = genMethodId (entry_method obj) (types_of (e_inputs obj))
           in if hash = methodId
              then (case codec (types_of (e_inputs obj)) (Bytes inputsBuf) of
                      Inl err \<Rightarrow> Inl (CodecError err)
                    | Inr vals \<Rightarrow> Inr (info_of obj vals))
              else Inr acc)"

text \<open>\<^verbatim>\<open>Array.prototype.reduce\<close> with a callback that may throw.\<close>

fun reduce :: "('a \<Rightarrow> 'b \<Rightarrow> js_error + 'a) \<Rightarrow> 'a \<Rightarrow> 'b list \<Rightarrow> js_error + 'a" where
  "reduce f acc [] = Inr acc"
| "reduce f acc (x # xs) = (case f acc x of Inl err \<Rightarrow> Inl err | Inr acc' \<Rightarrow> reduce f acc' xs)"

definition no_match :: "'v extract_info" where
  "no_match = \<lparr>method' = None, typesInput = [], inputs = [], namesInput = [],
               typesOutput = [], namesOutput = []\<rparr>"

definition extractInfoFromABI :: "'v codec \<Rightarrow> string \<Rightarrow> abi_entry list \<Rightarrow> js_error + 'v extract_info" where
  "extractInfoFromABI codec data abi =
     reduce (extract_step codec (methodId_of data) (inputsBuf_of data)) no_match abi"

section \<open>The public decoders\<close>

text \<open>
  The object \<^verbatim>\<open>{_length: n, 0: v0, 1: v1, ...}\<close>: its \<^verbatim>\<open>_length\<close> and the values stored under
  the indices, \<^verbatim>\<open>None\<close> where the stored value is \<^verbatim>\<open>undefined\<close>.
\<close>

record 'v decoded_obj =
  obj_length :: nat
  obj_entries :: "'v option list"

text \<open>\<^verbatim>\<open>let o = {_length: n}; for (i = 0; i < n; i++) o[i] = vals[i]\<close>\<close>

definition assemble :: "nat \<Rightarrow> 'v list \<Rightarrow> 'v decoded_obj" where
  "assemble n vals =
     \<lparr>obj_length = n,
      obj_entries = map (\<lambda>i. if i < length vals then Some (vals ! i) else None) [0..<n]\<rparr>"

record decoded_call =
  methodName :: "string option"

record 'v input_result = decoded_call +
  inputNames :: "jsname list"
  inputTypes :: "jsv list"
  decodedInput :: "'v decoded_obj"

definition decodeInputFromData :: "'v codec \<Rightarrow> string \<Rightarrow> abi_entry list \<Rightarrow> js_error + 'v input_result" where
  "decodeInputFromData codec data abi =
     (case extractInfoFromABI codec data abi of
        Inl err \<Rightarrow> Inl err
      | Inr resultInput \<Rightarrow>
          (let names = namesInput resultInput;
               vals = inputs resultInput;
               types = typesInput resultInput
           in Inr \<lparr>methodName = method' resultInput, inputNames = names, inputTypes = types,
                   decodedInput = assemble (length names) vals\<rparr>))"

text \<open>A field that holds either the empty object \<^verbatim>\<open>{}\<close> or an array.\<close>

datatype 'a js_collection = EmptyObject | JsArray "'a list"

text \<open>\<^verbatim>\<open>decodedOutput\<close> is an indexed object, or a plain string on the degraded path.\<close>

datatype 'v decoded_output = OutObj "'v decoded_obj" | OutStr code_units

record 'v output_result = decoded_call +
  outputNames :: "jsname js_collection"
  outputTypes :: "jsv js_collection"
  decodedOutput :: "'v decoded_output"

text \<open>\<^verbatim>\<open>i.name === resultInput.method\<close>\<close>

fun name_is_method :: "jsname \<Rightarrow> string option \<Rightarrow> bool" where
  "name_is_method (NameStr s) (Some m) = (s = m)"
| "name_is_method NameNull None = True"
| "name_is_method _ _ = False"

text \<open>\<^verbatim>\<open>names.forEach(function (n, l) { this[l] || (this[l] = null) }, names)\<close>\<close>

fun null_if_falsy :: "jsname \<Rightarrow> jsname" where
  "null_if_falsy (NameStr s) = (if s \<noteq> [] then NameStr s else NameNull)"
| "null_if_falsy _ = NameNull"

subsection \<open>\<^verbatim>\<open>parseInt(s, 16)\<close> and \<^verbatim>\<open>String.fromCharCode\<close>\<close>

text \<open>The white space and line terminator code units below 256, which \<^verbatim>\<open>parseInt\<close> skips.\<close>

definition is_js_whitespace :: "char \<Rightarrow> bool" where
  "is_js_whitespace c = (of_char c \<in> {9, 10, 11, 12, 13, 32, 160 :: nat})"

fun strip_sign :: "string \<Rightarrow> int \<times> string" where
  "strip_sign (c # r) =
     (if c = CHR ''-'' then (- 1, r) else if c = CHR ''+'' then (1, r) else (1, c # r))"
| "strip_sign [] = (1, [])"

fun strip_radix_prefix :: "string \<Rightarrow> string" where
  "strip_radix_prefix (a # b # rest) =
     (if a = CHR ''0'' \<and> (b = CHR ''x'' \<or> b = CHR ''X'') then rest else a # b # rest)"
| "strip_radix_prefix s = s"

definition hex_value :: "string \<Rightarrow> nat" where
  "hex_value z = foldl (\<lambda>acc c. 16 * acc + (case hex_digit_value c of Some d \<Rightarrow> d | None \<Rightarrow> 0)) 0 z"

text \<open>\<^verbatim>\<open>None\<close> is \<^verbatim>\<open>NaN\<close>.\<close>

definition parseInt16 :: "string \<Rightarrow> int option" where
  "parseInt16 s =
     (let (sign, s2) = strip_sign (dropWhile is_js_whitespace s);
          z = takeWhile is_hex (strip_radix_prefix s2)
      in if z = [] then None else Some (sign * int (hex_value z)))"

text \<open>\<^verbatim>\<open>String.fromCharCode(code)\<close> yields the one code unit \<^verbatim>\<open>ToUint16(code)\<close>.\<close>

definition fromCharCode :: "int option \<Rightarrow> nat" where
  "fromCharCode code = (case code of None \<Rightarrow> 0 | Some n \<Rightarrow> nat (n mod 65536))"

text \<open>The chunks \<^verbatim>\<open>s.substr(i, 2)\<close> for \<^verbatim>\<open>i = 0, 2, 4, ...\<close> below \<^verbatim>\<open>s.length\<close>.\<close>

fun chunks2 :: "string \<Rightarrow> string list" where
  "chunks2 (a # b # rest) = [a, b] # chunks2 rest"
| "chunks2 [a] = [[a]]"
| "chunks2 [] = []"

definition resMessage_of :: "string \<Rightarrow> code_units" where
  "resMessage_of encodedResult = map (\<lambda>p. fromCharCode (parseInt16 p)) (chunks2 encodedResult)"

subsection \<open>\<^verbatim>\<open>decodeResultFromData\<close>\<close>

definition decodeResultFromData ::
  "'v codec \<Rightarrow> string \<Rightarrow> string \<Rightarrow> abi_entry list \<Rightarrow> js_error + 'v output_result"
where
  "decodeResultFromData codec data encodedResult abi =
     (case extractInfoFromABI codec data abi of
        Inl err \<Rightarrow> Inl err
      | Inr resultInput \<Rightarrow>
          (case find (\<lambda>i. name_is_method (e_name i) (method' resultInput)) abi of
             None \<Rightarrow> Inl TypeError
           | Some functionABI \<Rightarrow>
               (case e_outputs functionABI of
                  None \<Rightarrow>
                    Inr \<lparr>methodName = method' resultInput, outputNames = EmptyObject,
                         outputTypes = EmptyObject,
                         decodedOutput = OutObj \<lparr>obj_length = 0, obj_entries = []\<rparr>\<rparr>
                | Some outputType \<Rightarrow>
                    (let types = map type_value outputType;
                         names = map null_if_falsy (namesOutput resultInput)
                     in if \<not> includes_0x encodedResult
                        then Inr \<lparr>methodName = method' resultInput, outputNames = JsArray names,
                                  outputTypes = JsArray types,
                                  decodedOutput = OutStr (resMessage_of encodedResult)\<rparr>
                        else (case codec types (HexString encodedResult) of
                                Inl err \<Rightarrow> Inl (CodecError err)
                              | Inr outputs \<Rightarrow>
                                  Inr \<lparr>methodName = method' resultInput, outputNames = JsArray names,
                                       outputTypes = JsArray types,
                                       decodedOutput = OutObj (assemble (length types) outputs)\<rparr>)))))"

subsection \<open>\<^verbatim>\<open>decodeRevertMessageFromTransaction\<close>\<close>

text \<open>The part of the transaction record that the function reads: \<^verbatim>\<open>ret[0].contractRet\<close>.\<close>

record ret_item =
  contractRet :: "string option"

record transaction =
  ret :: "ret_item list option"

record revert_result =
  txStatus :: "string option"
  revertMessage :: code_units

text \<open>
  \<^verbatim>\<open>Buffer.prototype.toString('utf8')\<close> belongs to the runtime and is the parameter
  \<^verbatim>\<open>toUtf8\<close>. \<^verbatim>\<open>s.substring(s.length - 64, s.length)\<close> clamps a negative start to 0, as
  the subtraction on \<^typ>\<open>nat\<close> does.
\<close>

definition decodeRevertMessageFromTransaction ::
  "(nat list \<Rightarrow> code_units) \<Rightarrow> transaction \<Rightarrow> string \<Rightarrow> js_error + revert_result"
where
  "decodeRevertMessageFromTransaction toUtf8 transaction encodedResult =
     (case ret transaction of
        None \<Rightarrow> Inl TypeError
      | Some [] \<Rightarrow> Inl TypeError
      | Some (r # _) \<Rightarrow>
          (let status = contractRet r
           in if status = Some ''REVERT''
              then (let encodedResultNoPrefix = drop (length encodedResult - 64) encodedResult;
                        resMessage = filter (\<lambda>c. c \<noteq> 0) (toUtf8 (buffer_from_hex encodedResultNoPrefix))
                    in Inr \<lparr>txStatus = status, revertMessage = resMessage\<rparr>)
              else Inr \<lparr>txStatus = status, revertMessage = []\<rparr>))"

section \<open>Collaborators at concrete inputs\<close>

text \<open>
  A stand-in for the ABI codec, used only where a theorem is applied to a concrete input:
  it reads every declared type as one static 32-byte big-endian word, fails with
  \<^verbatim>\<open>insufficient data\<close> when the payload is too short, and accepts a string payload
  only in the form \<^verbatim>\<open>0x\<close> followed by an even number of hexadecimal digits.
\<close>

definition be_value :: "nat list \<Rightarrow> nat" where
  "be_value bytes = foldl (\<lambda>acc b. 256 * acc + b) 0 bytes"

fun decode_words :: "jsv list \<Rightarrow> nat list \<Rightarrow> string + nat list" where
  "decode_words [] bytes = Inr []"
| "decode_words (t # ts) bytes =
     (if length bytes < 32 then Inl ''insufficient data''
      else (case decode_words ts (drop 32 bytes) of
              Inl err \<Rightarrow> Inl err
            | Inr vs \<Rightarrow> Inr (be_value (take 32 bytes) # vs)))"

definition word_codec :: "nat codec" where
  "word_codec types arg =
     (case arg of
        Bytes bs \<Rightarrow> decode_words types bs
      | HexString s \<Rightarrow>
          (case s of
             a # b # digits \<Rightarrow>
               if a = CHR ''0'' \<and> b = CHR ''x'' \<and> list_all is_hex digits \<and> even (length digits)
               then decode_words types (buffer_from_hex digits)
               else Inl ''invalid arrayify value''
           | _ \<Rightarrow> Inl ''invalid arrayify value''))"

text \<open>
  A UTF-8 decoder in the manner of the WHATWG Encoding Standard, for
  \<^verbatim>\<open>Buffer.prototype.toString('utf8')\<close>: an ill-formed sequence yields U+FFFD; a code
  point above U+FFFF becomes a surrogate pair.
\<close>

datatype utf8_lead = Single nat | Multi nat nat nat nat | Bad

definition lead_byte :: "nat \<Rightarrow> utf8_lead" where
  "lead_byte b =
     (if b < 128 then Single b
      else if 194 \<le> b \<and> b \<le> 223 then Multi (b mod 32) 1 128 191
      else if 224 \<le> b \<and> b \<le> 239
        then Multi (b mod 16) 2 (if b = 224 then 160 else 128) (if b = 237 then 159 else 191)
      else if 240 \<le> b \<and> b \<le> 244
        then Multi (b mod 8) 3 (if b = 240 then 144 else 128) (if b = 244 then 143 else 191)
      else Bad)"

fun utf8_points :: "(nat \<times> nat \<times> nat \<times> nat) option \<Rightarrow> nat list \<Rightarrow> nat list" where
  "utf8_points None [] = []"
| "utf8_points (Some st) [] = [65533]"
| "utf8_points None (b # bs) =
     (case lead_byte b of
        Single c \<Rightarrow> c # utf8_points None bs
      | Multi cp n lo hi \<Rightarrow> utf8_points (Some (cp, n, lo, hi)) bs
      | Bad \<Rightarrow> 65533 # utf8_points None bs)"
| "utf8_points (Some (cp, n, lo, hi)) (b # bs) =
     (if lo \<le> b \<and> b \<le> hi
      then (if n = 1 then (cp * 64 + b mod 64) # utf8_points None bs
            else utf8_points (Some (cp * 64 + b mod 64, n - 1, 128, 191)) bs)
      else 65533 #
           (case lead_byte b of
              Single c \<Rightarrow> c # utf8_points None bs
            | Multi cp' n' lo' hi' \<Rightarrow> utf8_points (Some (cp', n', lo', hi')) bs
            | Bad \<Rightarrow> 65533 # utf8_points None bs))"

definition utf16_units :: "nat \<Rightarrow> code_units" where
  "utf16_units cp =
     (if cp < 65536 then [cp]
      else [55296 + (cp - 65536) div 1024, 56320 + (cp - 65536) mod 1024])"

definition utf8_toString :: "nat list \<Rightarrow> code_units" where
  "utf8_toString bytes = concat (map utf16_units (utf8_points None bytes))"

text \<open>The code units of a string literal.\<close>

definition units :: "string \<Rightarrow> code_units" where
  "units s = map of_char s"

subsection \<open>A token contract's ABI and a call to it\<close>

definition param :: "string \<Rightarrow> string \<Rightarrow> abi_param" where
  "param n t = AbiParam (NameStr n) (Some t) None"

definition transfer_inputs :: "abi_param list" where
  "transfer_inputs = [param ''to'' ''address'', param ''value'' ''uint256'']"

definition transfer_entry :: abi_entry where
  "transfer_entry =
     \<lparr>e_type = Some ''function'', e_name = NameStr ''transfer'',
      e_inputs = Some transfer_inputs, e_outputs = Some [param ''success'' ''bool'']\<rparr>"

definition transfer_event :: abi_entry where
  "transfer_event =
     \<lparr>e_type = Some ''event'', e_name = NameStr ''Transfer'',
      e_inputs = Some [param ''from'' ''address'', param ''to'' ''address'', param ''value'' ''uint256''],
      e_outputs = None\<rparr>"

definition token_abi :: "abi_entry list" where
  "token_abi = [transfer_event, transfer_entry]"

definition transfer_call :: string where
  "transfer_call = ''0xa9059cbb'' @
     ''0000000000000000000000008f476d1155e9910a885cae1c4396bdd392c3883e'' @
     ''00000000000000000000000000000000000000000000000000000000000003e8''"

definition unknown_call :: string where
  "unknown_call = ''0x12345678'' @
     ''00000000000000000000000000000000000000000000000000000000000003e8''"

subsection \<open>A reverted transaction and its result payload\<close>

definition plot_tx :: transaction where
  "plot_tx = \<lparr>ret = Some [\<lparr>contractRet = Some ''REVERT''\<rparr>]\<rparr>"

definition plot_result :: string where
  "plot_result = ''0x08c379a0'' @
     ''0000000000000000000000000000000000000000000000000000000000000020'' @
     ''000000000000000000000000000000000000000000000000000000000000001b'' @
     ''506c6f74206973206e6f742063757272656e746c79206f776e65640000000000''"

subsection \<open>Tuple parameters\<close>

definition pair_param :: abi_param where
  "pair_param = AbiParam (NameStr ''pair'') (Some ''tuple'') (Some [param ''a'' ''uint256'', param ''b'' ''bool''])"

definition orders_param :: abi_param where
  "orders_param = AbiParam (NameStr ''orders'') (Some ''tuple[]'') (Some [pair_param, param ''who'' ''address''])"

text \<open>An entry \<^verbatim>\<open>g\<close> whose one input is the tuple \<^verbatim>\<open>pair\<close>.\<close>

definition pair_entry :: abi_entry where
  "pair_entry =
     \<lparr>e_type = Some ''function'', e_name = NameStr ''g'',
      e_inputs = Some [pair_param], e_outputs = None\<rparr>"

subsection \<open>Entries that share a selector or a name\<close>

definition transfer_duplicate :: abi_entry where
  "transfer_duplicate =
     \<lparr>e_type = Some ''function'', e_name = NameStr ''transfer'',
      e_inputs = Some transfer_inputs, e_outputs = Some [param ''remaining'' ''uint256'']\<rparr>"

definition duplicate_abi :: "abi_entry list" where
  "duplicate_abi = [transfer_entry, transfer_duplicate]"

definition transfer_values :: "nat list" where
  "transfer_values = [0x8f476d1155e9910a885cae1c4396bdd392c3883e, 1000]"

definition transfer_void :: abi_entry where
  "transfer_void =
     \<lparr>e_type = Some ''function'', e_name = NameStr ''transfer'',
      e_inputs = Some transfer_inputs, e_outputs = None\<rparr>"

definition transfer_overload :: abi_entry where
  "transfer_overload =
     \<lparr>e_type = Some ''function'', e_name = NameStr ''transfer'',
      e_inputs = Some [param ''to'' ''address''], e_outputs = Some [param ''success'' ''bool'']\<rparr>"

definition overloaded_abi :: "abi_entry list" where
  "overloaded_abi = [transfer_overload, transfer_void]"

definition word_one :: string where
  "word_one = ''0x0000000000000000000000000000000000000000000000000000000000000001''"

subsection \<open>A failure message in place of return data\<close>


section \<open>Notions the statements below use\<close>

text \<open>
  An entry takes part in the match when it is neither a constructor nor an event and its
  recomputed selector equals the selector of the call data (the two guards and the
  comparison of the reducer).
\<close>

definition selector_matches :: "string \<Rightarrow> abi_entry \<Rightarrow> bool" where
  "selector_matches data obj =
     (e_type obj \<noteq> Some ''constructor'' \<and> e_type obj \<noteq> Some ''event'' \<and>
      genMethodId (entry_method obj) (types_of (e_inputs obj)) = methodId_of data)"

text \<open>The entry whose data the resolver returns: the last matching one, if any.\<close>

definition resolved_entry :: "string \<Rightarrow> abi_entry list \<Rightarrow> abi_entry option" where
  "resolved_entry data abi =
     (case filter (selector_matches data) abi of [] \<Rightarrow> None | m # ms \<Rightarrow> Some (last (m # ms)))"

definition param_count :: "abi_param list option \<Rightarrow> nat" where
  "param_count ps = (case ps of None \<Rightarrow> 0 | Some xs \<Rightarrow> length xs)"

text \<open>
  The number of values a \<^verbatim>\<open>decodedOutput\<close> holds: the \<^verbatim>\<open>_length\<close> of an indexed
  object, the number of code units of a plain string.
\<close>

fun value_count :: "'v decoded_output \<Rightarrow> nat" where
  "value_count (OutObj obj) = obj_length obj"
| "value_count (OutStr s) = length s"

fun collection_count :: "'a js_collection \<Rightarrow> nat" where
  "collection_count EmptyObject = 0"
| "collection_count (JsArray xs) = length xs"

section \<open>Evaluating the hash\<close>

text \<open>
  The rewrite rules that evaluate the hash of a concrete string inside the kernel: the
  definitions above and the structural equations of the list and number operations they use.
\<close>

lemmas keccak_eval =
  slice_2_10_def keccak256_def utf8_encode_def utf8_encode_char.simps
  keccak256_bytes_def absorb.simps pad101_def pad_to.simps keccak_f_def keccak_rc_def keccak_round_def
  theta_def rho_pi_def chi_def chi_row_def keccak_rot_def rotl64_def hexlify_def hex_digit_def
  xorl.simps andnl.simps xor5.simps andn5.simps rotate_left.simps planes.simps parity.simps iota.simps
  bits_of_byte.simps lanes_of_bytes.simps bytes_of_bits.simps xor_state.simps hex_of_byte.simps
  append.simps list.map concat.simps foldl.simps list.size replicate.simps
  take_Suc_Cons drop_Suc_Cons take_0 drop_0 take.simps(1) drop.simps(1) nth_Cons_Suc nth_Cons_0
  eval_nat_numeral BitM.simps One_nat_def diff_Suc_Suc diff_zero Suc_less_eq zero_less_Suc not_less_zero
  nat.inject nat.distinct add_Suc add_0 add_Suc_right add_0_right
  Let_def case_prod_conv simp_thms if_True if_False

lemma handleInputs_Str [simp]: "handleInputs (Str s) = Str s"
  by (simp add: handleInputs_def)

lemma handleInputs_Undefined [simp]: "handleInputs Undefined = Undefined"
  by (simp add: handleInputs_def)

lemma keccak_transfer:
  "slice_2_10 (keccak256 (utf8_encode ''transfer(address,uint256)'')) = ''a9059cbb''"
  by (simp only: keccak_eval cong: if_weak_cong)

lemma keccak_transfer_address:
  "slice_2_10 (keccak256 (utf8_encode ''transfer(address)'')) = ''1a695230''"
  by (simp only: keccak_eval cong: if_weak_cong)

text \<open>The hash of the empty byte string, as published for Keccak-256.\<close>

lemma keccak256_empty:
  "keccak256 [] = ''0xc5d2460186f7233c927e7db2dcc703c0e500b653ca82273b7bfad8045d85a470''"
  by (simp only: keccak_eval cong: if_weak_cong)

lemma selector_transfer:
  "genMethodId (Some ''transfer'') [Str ''address'', Str ''uint256''] = ''a9059cbb''"
proof -
  have "method_string (Some ''transfer'') @ ''('' @ js_join (map handleInputs [Str ''address'', Str ''uint256'']) @ '')''
        = ''transfer(address,uint256)''"
    by (simp add: method_string_def js_join_def)
  then show ?thesis
    by (simp only: genMethodId_def Let_def keccak_transfer)
qed

lemma selector_transfer_address:
  "genMethodId (Some ''transfer'') [Str ''address''] = ''1a695230''"
proof -
  have "method_string (Some ''transfer'') @ ''('' @ js_join (map handleInputs [Str ''address'']) @ '')''
        = ''transfer(address)''"
    by (simp add: method_string_def js_join_def)
  then show ?thesis
    by (simp only: genMethodId_def Let_def keccak_transfer_address)
qed


lemma extract_step_match:
  "selector_matches data obj \<Longrightarrow>
   extract_step codec (methodId_of data) buf acc obj =
     (case codec (types_of (e_inputs obj)) (Bytes buf) of
        Inl err \<Rightarrow> Inl (CodecError err)
      | Inr vals \<Rightarrow> Inr (info_of obj vals))"
  by (simp add: extract_step_def selector_matches_def)

lemma extract_step_no_match:
  "\<not> selector_matches data obj \<Longrightarrow> extract_step codec (methodId_of data) buf acc obj = Inr acc"
  by (auto simp: extract_step_def selector_matches_def)

lemma reduce_no_match:
  "\<forall>obj\<in>set abi. \<not> selector_matches data obj \<Longrightarrow>
   reduce (extract_step codec (methodId_of data) buf) acc abi = Inr acc"
  by (induction abi arbitrary: acc) (simp_all add: extract_step_no_match)

lemma reduce_result:
  "reduce (extract_step codec (methodId_of data) buf) acc abi = Inr ri \<Longrightarrow>
   (case filter (selector_matches data) abi of
      [] \<Rightarrow> ri = acc
    | m # ms \<Rightarrow> \<exists>vals. codec (types_of (e_inputs (last (m # ms)))) (Bytes buf) = Inr vals \<and>
                       ri = info_of (last (m # ms)) vals)"
proof (induction abi arbitrary: acc)
  case Nil
  then show ?case by simp
next
  case (Cons x xs)
  show ?case
  proof (cases "selector_matches data x")
    case False
    with Cons.prems have "reduce (extract_step codec (methodId_of data) buf) acc xs = Inr ri"
      by (simp add: extract_step_no_match)
    from Cons.IH [OF this] False show ?thesis by simp
  next
    case True
    with Cons.prems obtain vals where
      v: "codec (types_of (e_inputs x)) (Bytes buf) = Inr vals" and
      r: "reduce (extract_step codec (methodId_of data) buf) (info_of x vals) xs = Inr ri"
      by (auto simp: extract_step_match split: sum.splits)
    from Cons.IH [OF r] v True show ?thesis
      by (cases "filter (selector_matches data) xs") auto
  qed
qed

lemma reduce_decodes_every_match:
  "reduce (extract_step codec (methodId_of data) buf) acc abi = Inr ri \<Longrightarrow>
   m \<in> set abi \<Longrightarrow> selector_matches data m \<Longrightarrow>
   \<exists>vals. codec (types_of (e_inputs m)) (Bytes buf) = Inr vals"
proof (induction abi arbitrary: acc)
  case Nil
  then show ?case by simp
next
  case (Cons x xs)
  show ?case
  proof (cases "selector_matches data x")
    case False
    with Cons.prems have "reduce (extract_step codec (methodId_of data) buf) acc xs = Inr ri" "m \<in> set xs"
      by (auto simp: extract_step_no_match)
    with Cons.IH Cons.prems(3) show ?thesis by blast
  next
    case True
    with Cons.prems(1) obtain vals where
      v: "codec (types_of (e_inputs x)) (Bytes buf) = Inr vals" and
      r: "reduce (extract_step codec (methodId_of data) buf) (info_of x vals) xs = Inr ri"
      by (auto simp: extract_step_match split: sum.splits)
    show ?thesis
    proof (cases "m = x")
      case True
      with v show ?thesis by blast
    next
      case False
      with Cons.prems(2) have "m \<in> set xs" by simp
      with Cons.IH r Cons.prems(3) show ?thesis by blast
    qed
  qed
qed

lemma reduce_returns:
  "\<forall>m\<in>set abi. selector_matches data m \<longrightarrow> (\<exists>vals. codec (types_of (e_inputs m)) (Bytes buf) = Inr vals) \<Longrightarrow>
   \<exists>ri. reduce (extract_step codec (methodId_of data) buf) acc abi = Inr ri"
proof (induction abi arbitrary: acc)
  case Nil
  then show ?case by simp
next
  case (Cons x xs)
  then show ?case
    by (cases "selector_matches data x") (auto simp: extract_step_match extract_step_no_match)
qed


section \<open>The selector\<close>

lemma length_hex_of_byte [simp]: "length (hex_of_byte c) = 2"
  by (cases c) simp

lemma take_hexlify: "take (2 * n) (hexlify d) = hexlify (take n d)"
proof (induction d arbitrary: n)
  case Nil
  then show ?case by (simp add: hexlify_def)
next
  case (Cons c d)
  show ?case
  proof (cases n)
    case 0
    then show ?thesis by (simp add: hexlify_def)
  next
    case (Suc k)
    with Cons.IH [of k] show ?thesis by (simp add: hexlify_def)
  qed
qed

lemma hexlify_lowercase: "set (hexlify d) \<subseteq> set ''0123456789abcdef''"
proof -
  define H where "H = set ''0123456789abcdef''"
  have digit: "hex_digit b3 b2 b1 b0 \<in> H" for b3 b2 b1 b0
    by (simp add: H_def hex_digit_def)
  have "set (hex_of_byte x) \<subseteq> H" for x
    by (cases x) (simp add: digit)
  then have "set (hexlify d) \<subseteq> H"
    by (auto simp: hexlify_def)
  then show ?thesis
    by (simp only: H_def)
qed

lemma genMethodId_unfold:
  "genMethodId m types =
     hexlify (take 4 (keccak256_bytes (utf8_encode (method_string m @ ''('' @ js_join (map handleInputs types) @ '')''))))"
proof -
  have "slice_2_10 (''0x'' @ hexlify d) = hexlify (take 4 d)" for d
    using take_hexlify [of 4 d] by (simp add: slice_2_10_def)
  then show ?thesis
    by (simp add: genMethodId_def keccak256_def)
qed

text \<open>
  What \<^verbatim>\<open>_genMethodId\<close> computes for a method name and a type list: the lowercase
  hexadecimal rendering of the first 4 bytes of the Keccak-256 hash of the string
  \<^verbatim>\<open>name + '(' + types.map(_handleInputs).join(',') + ')'\<close>; for the name \<^verbatim>\<open>transfer\<close> and
  the types \<^verbatim>\<open>['address', 'uint256']\<close> it is \<^verbatim>\<open>a9059cbb\<close>.
\<close>

lemma selector_is_keccak_prefix:
  "genMethodId (Some name) types =
     hexlify (take 4 (keccak256_bytes (utf8_encode (name @ ''('' @ js_join (map handleInputs types) @ '')''))))
   \<and> set (genMethodId (Some name) types) \<subseteq> set ''0123456789abcdef''
   \<and> genMethodId (Some ''transfer'') [Str ''address'', Str ''uint256''] = ''a9059cbb''"
  using genMethodId_unfold [of "Some name" types] hexlify_lowercase selector_transfer
  by (simp add: method_string_def del: set_simps)

lemma keccak_g_tuple:
  "slice_2_10 (keccak256 (utf8_encode ''g(tuple)'')) = ''b2521025''"
  by (simp only: keccak_eval cong: if_weak_cong)

lemma keccak_g_canonical:
  "hexlify (take 4 (keccak256_bytes (utf8_encode ''g((uint256,bool))''))) = ''8e6c1d72''"
  by (simp only: keccak_eval cong: if_weak_cong)

lemma pair_entry_signature:
  "method_string (entry_method pair_entry) @ ''('' @
     js_join (map handleInputs (types_of (e_inputs pair_entry))) @ '')'' = ''g(tuple)''"
  by (simp add: pair_entry_def pair_param_def entry_method_def method_string_def types_of_def
      type_value_def js_join_def)

text \<open>
  Claim C1. The claim asks that for every entry with a name and a list of input types the
  selector is the lowercase hexadecimal rendering of the first 4 bytes of the Keccak-256
  hash of the name, an opening parenthesis, the comma-joined canonical input types and a
  closing parenthesis, and that \<^verbatim>\<open>transfer\<close> with \<^verbatim>\<open>['address', 'uint256']\<close> gives
  \<^verbatim>\<open>a9059cbb\<close>. The second part holds. The first does not hold for an entry with a tuple
  input: for the entry \<^verbatim>\<open>g\<close> with the one input \<^verbatim>\<open>pair\<close>, a tuple of a \<^verbatim>\<open>uint256\<close> and a
  \<^verbatim>\<open>bool\<close>, the resolver hashes the string \<^verbatim>\<open>g(tuple)\<close> and gets \<^verbatim>\<open>b2521025\<close>, whereas the
  canonical signature \<^verbatim>\<open>g((uint256,bool))\<close> has the selector \<^verbatim>\<open>8e6c1d72\<close>.
\<close>

theorem tuple_selector_is_not_canonical:
  "method_string (entry_method pair_entry) @ ''('' @
     js_join (map handleInputs (types_of (e_inputs pair_entry))) @ '')'' = ''g(tuple)'' \<and>
   genMethodId (entry_method pair_entry) (types_of (e_inputs pair_entry)) = ''b2521025'' \<and>
   hexlify (take 4 (keccak256_bytes (utf8_encode ''g((uint256,bool))''))) = ''8e6c1d72'' \<and>
   genMethodId (Some ''transfer'') [Str ''address'', Str ''uint256''] = ''a9059cbb''"
proof -
  have "genMethodId (entry_method pair_entry) (types_of (e_inputs pair_entry)) = ''b2521025''"
    by (simp only: genMethodId_def Let_def pair_entry_signature keccak_g_tuple)
  with pair_entry_signature keccak_g_canonical selector_transfer show ?thesis
    by (simp only: simp_thms)
qed

section \<open>Calls that match no entry\<close>

lemma transfer_entry_selector:
  "genMethodId (entry_method transfer_entry) (types_of (e_inputs transfer_entry)) = ''a9059cbb''"
proof -
  have "entry_method transfer_entry = Some ''transfer''"
    by (simp add: entry_method_def transfer_entry_def)
  moreover have "types_of (e_inputs transfer_entry) = [Str ''address'', Str ''uint256'']"
    by (simp add: types_of_def transfer_entry_def transfer_inputs_def param_def type_value_def)
  ultimately show ?thesis
    by (simp only: selector_transfer)
qed

lemma hex_digit_value_simps:
  "hex_digit_value CHR ''0'' = Some 0" "hex_digit_value CHR ''1'' = Some 1"
  "hex_digit_value CHR ''2'' = Some 2" "hex_digit_value CHR ''3'' = Some 3"
  "hex_digit_value CHR ''4'' = Some 4" "hex_digit_value CHR ''5'' = Some 5"
  "hex_digit_value CHR ''6'' = Some 6" "hex_digit_value CHR ''7'' = Some 7"
  "hex_digit_value CHR ''8'' = Some 8" "hex_digit_value CHR ''9'' = Some 9"
  "hex_digit_value CHR ''a'' = Some 10" "hex_digit_value CHR ''b'' = Some 11"
  "hex_digit_value CHR ''c'' = Some 12" "hex_digit_value CHR ''d'' = Some 13"
  "hex_digit_value CHR ''e'' = Some 14" "hex_digit_value CHR ''f'' = Some 15"
  "hex_digit_value CHR ''x'' = None"
  by (simp_all add: hex_digit_value_def)

lemma methodId_transfer_call: "methodId_of transfer_call = ''a9059cbb''"
  by (simp add: methodId_of_def dataBuf_def transfer_call_def hex_digit_value_simps byte_hex_def
      toString16.simps hex_char_def)

lemma methodId_unknown_call: "methodId_of unknown_call = ''12345678''"
  by (simp add: methodId_of_def dataBuf_def unknown_call_def hex_digit_value_simps byte_hex_def
      toString16.simps hex_char_def)

lemma token_abi_matches:
  "selector_matches data transfer_event = False"
  "selector_matches transfer_call transfer_entry = True"
  "selector_matches unknown_call transfer_entry = False"
  by (simp_all add: selector_matches_def transfer_entry_selector methodId_transfer_call
      methodId_unknown_call) (simp_all add: transfer_event_def transfer_entry_def)


lemma extract_no_match:
  "\<forall>obj\<in>set abi. \<not> selector_matches data obj \<Longrightarrow>
   extractInfoFromABI codec data abi = Inr no_match"
  by (simp add: extractInfoFromABI_def reduce_no_match)

lemma decodeInput_no_match:
  "\<forall>obj\<in>set abi. \<not> selector_matches data obj \<Longrightarrow>
   decodeInputFromData codec data abi =
     Inr \<lparr>methodName = None, inputNames = [], inputTypes = [],
          decodedInput = \<lparr>obj_length = 0, obj_entries = []\<rparr>\<rparr>"
  by (simp add: decodeInputFromData_def extract_no_match no_match_def assemble_def)



lemma find_none_iff_name:
  "\<forall>obj\<in>set abi. e_name obj \<noteq> NameNull \<Longrightarrow>
   find (\<lambda>i. name_is_method (e_name i) None) abi = None"
proof (induction abi)
  case Nil
  then show ?case by simp
next
  case (Cons x xs)
  then have "\<not> name_is_method (e_name x) None"
    by (cases "e_name x") simp_all
  with Cons show ?case by simp
qed

text \<open>
  Claim C10. When the selector of the call data matches no entry and no entry of the ABI
  array has the name \<^verbatim>\<open>null\<close>, \<^verbatim>\<open>decodeResultFromData\<close> raises a \<^verbatim>\<open>TypeError\<close> (the lookup by
  name finds nothing and \<^verbatim>\<open>outputs\<close> is read from \<^verbatim>\<open>undefined\<close>), whereas
  \<^verbatim>\<open>decodeInputFromData\<close> returns the result with the method name \<^verbatim>\<open>null\<close>.
\<close>

theorem decodeResult_unknown_selector_raises:
  assumes "\<forall>obj\<in>set abi. \<not> selector_matches data obj"
    and "\<forall>obj\<in>set abi. e_name obj \<noteq> NameNull"
  shows "decodeResultFromData codec data encodedResult abi = Inl TypeError \<and>
         decodeInputFromData codec data abi =
           Inr \<lparr>methodName = None, inputNames = [], inputTypes = [],
                decodedInput = \<lparr>obj_length = 0, obj_entries = []\<rparr>\<rparr>"
  using assms
  by (simp add: decodeResultFromData_def extract_no_match no_match_def find_none_iff_name
      decodeInput_no_match)

theorem decodeResult_unknown_selector_raises_witness:
  "decodeResultFromData word_codec unknown_call
     ''0x0000000000000000000000000000000000000000000000000000000000000001'' token_abi = Inl TypeError \<and>
   decodeInputFromData word_codec unknown_call token_abi =
     Inr \<lparr>methodName = None, inputNames = [], inputTypes = [],
          decodedInput = \<lparr>obj_length = 0, obj_entries = []\<rparr>\<rparr>"
  by (rule decodeResult_unknown_selector_raises)
     (simp_all add: token_abi_def token_abi_matches, simp_all add: transfer_event_def transfer_entry_def)

section \<open>The revert message extractor\<close>

text \<open>
  Claim C8. For a transaction whose recorded status \<^verbatim>\<open>ret[0].contractRet\<close> is anything but
  \<^verbatim>\<open>REVERT\<close>, \<^verbatim>\<open>decodeRevertMessageFromTransaction\<close> returns that status unchanged together
  with the empty message, whatever the result string is: any two result strings give the
  same result.
\<close>

theorem non_revert_status_unchanged:
  assumes "ret tx = Some (r # rs)" and "contractRet r \<noteq> Some ''REVERT''"
  shows "decodeRevertMessageFromTransaction toUtf8 tx encodedResult1 =
           Inr \<lparr>txStatus = contractRet r, revertMessage = []\<rparr> \<and>
         decodeRevertMessageFromTransaction toUtf8 tx encodedResult2 =
           decodeRevertMessageFromTransaction toUtf8 tx encodedResult1"
  using assms by (simp add: decodeRevertMessageFromTransaction_def)

theorem non_revert_status_unchanged_witness:
  "decodeRevertMessageFromTransaction utf8_toString
      \<lparr>ret = Some [\<lparr>contractRet = Some ''OUT_OF_ENERGY''\<rparr>]\<rparr> [] =
     Inr \<lparr>txStatus = Some ''OUT_OF_ENERGY'', revertMessage = []\<rparr> \<and>
   decodeRevertMessageFromTransaction utf8_toString
      \<lparr>ret = Some [\<lparr>contractRet = Some ''OUT_OF_ENERGY''\<rparr>]\<rparr> ''0x08c379a0zz'' =
     decodeRevertMessageFromTransaction utf8_toString
      \<lparr>ret = Some [\<lparr>contractRet = Some ''OUT_OF_ENERGY''\<rparr>]\<rparr> []"
  using non_revert_status_unchanged
    [of "\<lparr>ret = Some [\<lparr>contractRet = Some ''OUT_OF_ENERGY''\<rparr>]\<rparr>" "\<lparr>contractRet = Some ''OUT_OF_ENERGY''\<rparr>" "[]"
        utf8_toString "[]" "''0x08c379a0zz''"]
  by simp


lemma hex_value_pair:
  "hex_digit_value a = Some h \<Longrightarrow> hex_digit_value b = Some l \<Longrightarrow> hex_value [a, b] = 16 * h + l"
  by (simp add: hex_value_def)

lemma buffer_from_hex_all_hex:
  "list_all is_hex s \<Longrightarrow> even (length s) \<Longrightarrow> buffer_from_hex s = map hex_value (chunks2 s)"
proof (induction s rule: chunks2.induct)
  case (1 a b rest)
  then obtain h l where "hex_digit_value a = Some h" "hex_digit_value b = Some l"
    by (auto simp: is_hex_def)
  with 1 show ?case
    by (simp add: hex_value_pair)
next
  case (2 a)
  then show ?case by simp
next
  case 3
  then show ?case by simp
qed

lemma length_chunks2_even: "even (length s) \<Longrightarrow> 2 * length (chunks2 s) = length s"
  by (induction s rule: chunks2.induct) simp_all

lemma plot_buffer:
  "buffer_from_hex (drop (length plot_result - 64) plot_result) =
     [80, 108, 111, 116, 32, 105, 115, 32, 110, 111, 116, 32, 99, 117, 114, 114, 101, 110, 116,
      108, 121, 32, 111, 119, 110, 101, 100, 0, 0, 0, 0, 0]"
  by (simp add: plot_result_def hex_digit_value_simps)

lemma plot_message:
  "decodeRevertMessageFromTransaction utf8_toString plot_tx plot_result =
     Inr \<lparr>txStatus = Some ''REVERT'', revertMessage = units ''Plot is not currently owned''\<rparr>"
  by (simp add: decodeRevertMessageFromTransaction_def plot_tx_def plot_buffer utf8_toString_def
      lead_byte_def utf16_units_def units_def)

text \<open>
  Claim C4. For a transaction whose recorded status is \<^verbatim>\<open>REVERT\<close> and a result string of at
  least 64 characters whose final 64 characters are hexadecimal digits,
  \<^verbatim>\<open>decodeRevertMessageFromTransaction\<close> returns the status \<^verbatim>\<open>REVERT\<close> and, as the message,
  the UTF-8 decoding of the 32 bytes that those 64 digits denote, with every null character
  removed. For a payload whose last word reads \<^verbatim>\<open>Plot is not currently owned\<close> followed by
  five null bytes the message is exactly \<^verbatim>\<open>Plot is not currently owned\<close>.
\<close>

theorem revert_message_is_last_word:
  "(\<forall>toUtf8 tx r rs encodedResult.
      ret tx = Some (r # rs) \<and> contractRet r = Some ''REVERT'' \<and> 64 \<le> length encodedResult \<and>
      list_all is_hex (drop (length encodedResult - 64) encodedResult) \<longrightarrow>
      decodeRevertMessageFromTransaction toUtf8 tx encodedResult =
        Inr \<lparr>txStatus = Some ''REVERT'',
             revertMessage = filter (\<lambda>c. c \<noteq> 0)
               (toUtf8 (map hex_value (chunks2 (drop (length encodedResult - 64) encodedResult))))\<rparr> \<and>
      length (chunks2 (drop (length encodedResult - 64) encodedResult)) = 32)
   \<and> decodeRevertMessageFromTransaction utf8_toString plot_tx plot_result =
        Inr \<lparr>txStatus = Some ''REVERT'', revertMessage = units ''Plot is not currently owned''\<rparr>"
proof (intro conjI allI impI)
  fix toUtf8 :: "nat list \<Rightarrow> code_units" and tx :: transaction and r :: ret_item and rs :: "ret_item list"
    and encodedResult :: string
  let ?w = "drop (length encodedResult - 64) encodedResult"
  assume a: "ret tx = Some (r # rs) \<and> contractRet r = Some ''REVERT'' \<and> 64 \<le> length encodedResult \<and>
      list_all is_hex ?w"
  then have len: "length ?w = 64" by simp
  then have ev: "even (length ?w)" by simp
  from a ev have "buffer_from_hex ?w = map hex_value (chunks2 ?w)"
    by (simp add: buffer_from_hex_all_hex)
  with a show "decodeRevertMessageFromTransaction toUtf8 tx encodedResult =
        Inr \<lparr>txStatus = Some ''REVERT'',
             revertMessage = filter (\<lambda>c. c \<noteq> 0) (toUtf8 (map hex_value (chunks2 ?w)))\<rparr>"
    by (simp add: decodeRevertMessageFromTransaction_def)
  from length_chunks2_even [OF ev] len show "length (chunks2 ?w) = 32" by simp
next
  show "decodeRevertMessageFromTransaction utf8_toString plot_tx plot_result =
        Inr \<lparr>txStatus = Some ''REVERT'', revertMessage = units ''Plot is not currently owned''\<rparr>"
    by (rule plot_message)
qed

theorem revert_message_is_last_word_witness:
  "decodeRevertMessageFromTransaction utf8_toString plot_tx plot_result =
     Inr \<lparr>txStatus = Some ''REVERT'',
          revertMessage = filter (\<lambda>c. c \<noteq> 0)
            (utf8_toString (map hex_value (chunks2 (drop (length plot_result - 64) plot_result))))\<rparr> \<and>
   length (chunks2 (drop (length plot_result - 64) plot_result)) = 32"
proof -
  have "ret plot_tx = Some (\<lparr>contractRet = Some ''REVERT''\<rparr> # []) \<and>
        contractRet \<lparr>contractRet = Some ''REVERT''\<rparr> = Some ''REVERT'' \<and> 64 \<le> length plot_result \<and>
        list_all is_hex (drop (length plot_result - 64) plot_result)"
    by (simp add: plot_tx_def plot_result_def is_hex_def hex_digit_value_simps)
  with revert_message_is_last_word show ?thesis by blast
qed


section \<open>The type canonicalizer on tuples\<close>

lemma handle_array_not_flagged: "handle_array False xs = Undefined"
  by (simp add: Let_def)

lemma handle_components_undefined: "handle_components c = Undefined"
  by (cases c) (simp_all add: Let_def)

lemma handle_components_is_handleInputs:
  "handle_components (p_components x) = handleInputs (components_value x)"
  by (cases "p_components x") (simp_all add: components_value_def handleInputs_def Let_def)

lemma pushed_unfold:
  "pushed x =
     (if p_type x = Some ''tuple'' then handleInputs (components_value x)
      else if p_type x = Some ''tuple[]'' then Str (js_plus (handleInputs (components_value x)) ''[]'')
      else type_value x)"
  by (cases x) (simp add: handle_components_is_handleInputs [symmetric] type_value_def)

text \<open>
  What the canonicalizer does get right: a \<^verbatim>\<open>tuple[]\<close> parameter at the top level whose
  components are neither \<^verbatim>\<open>tuple\<close> nor \<^verbatim>\<open>tuple[]\<close> becomes its parenthesized,
  comma-joined component types followed by \<^verbatim>\<open>[]\<close>.
\<close>

lemma pushed_flat:
  "p_type x \<noteq> Some ''tuple'' \<Longrightarrow> p_type x \<noteq> Some ''tuple[]'' \<Longrightarrow> pushed x = type_value x"
  by (simp add: pushed_unfold)

lemma flat_tuple_array_canonical:
  assumes "\<forall>x\<in>set cs. p_type x \<noteq> Some ''tuple'' \<and> p_type x \<noteq> Some ''tuple[]''"
  shows "handleInputs (Obj (AbiParam n t (Some cs))) =
           Str (''('' @ js_join (map type_value cs) @ '')[]'')"
proof -
  from assms have "map pushed cs = map type_value cs"
    by (simp add: pushed_flat)
  then have "js_join (map pushed cs) = js_join (map type_value cs)"
    by (rule arg_cong)
  then show ?thesis
    by (simp add: handleInputs_def Let_def)
qed

text \<open>
  Claim C3. The claim asks that a \<^verbatim>\<open>tuple\<close> parameter canonicalizes to its parenthesized,
  comma-joined components and a \<^verbatim>\<open>tuple[]\<close> parameter to the same followed by \<^verbatim>\<open>[]\<close>, also
  when nested. The code does not do so: the recursive call on a component list returns
  \<^verbatim>\<open>undefined\<close> for every list, so inside \<^verbatim>\<open>orders_param\<close> the nested tuple
  \<^verbatim>\<open>(uint256,bool)\<close> is rendered as the empty string; a \<^verbatim>\<open>tuple\<close> parameter at the top
  level reaches the canonicalizer as the string \<^verbatim>\<open>tuple\<close> and stays so; and a \<^verbatim>\<open>tuple\<close>
  object handed to it directly gets the suffix \<^verbatim>\<open>[]\<close> of a tuple array.
\<close>

theorem nested_tuple_is_dropped:
  "handleInputs (Arr cs) = Undefined \<and>
   handleInputs (Obj orders_param) = Str ''(,address)[]'' \<and>
   types_of (Some [pair_param]) = [Str ''tuple''] \<and>
   handleInputs (Str ''tuple'') = Str ''tuple'' \<and>
   handleInputs (Obj pair_param) = Str ''(uint256,bool)[]''"
  by (simp add: handleInputs_def orders_param_def pair_param_def param_def Let_def js_join_def
      types_of_def type_value_def)

section \<open>Which entry the resolver returns\<close>

lemma transfer_types:
  "types_of (Some transfer_inputs) = [Str ''address'', Str ''uint256'']"
  by (simp add: types_of_def transfer_inputs_def param_def type_value_def)

lemma inputsBuf_transfer_call:
  "inputsBuf_of transfer_call =
     [0, 0, 0, 0, 0, 0, 0, 0, 0, 0, 0, 0, 143, 71, 109, 17, 85, 233, 145, 10, 136, 92, 174, 28, 67,
      150, 189, 211, 146, 195, 136, 62,
      0, 0, 0, 0, 0, 0, 0, 0, 0, 0, 0, 0, 0, 0, 0, 0, 0, 0, 0, 0, 0, 0, 0, 0, 0, 0, 0, 0, 0, 0, 3, 232]"
  by (simp add: inputsBuf_of_def dataBuf_def transfer_call_def hex_digit_value_simps)

lemma word_codec_transfer_call:
  "word_codec [Str ''address'', Str ''uint256''] (Bytes (inputsBuf_of transfer_call)) = Inr transfer_values"
  by (simp add: inputsBuf_transfer_call word_codec_def be_value_def transfer_values_def)

lemma transfer_duplicate_matches: "selector_matches transfer_call transfer_duplicate"
proof -
  have "entry_method transfer_duplicate = Some ''transfer''"
    by (simp add: entry_method_def transfer_duplicate_def)
  moreover have "types_of (e_inputs transfer_duplicate) = [Str ''address'', Str ''uint256'']"
    by (simp add: transfer_duplicate_def transfer_types)
  moreover have "e_type transfer_duplicate = Some ''function''"
    by (simp add: transfer_duplicate_def)
  ultimately show ?thesis
    by (simp add: selector_matches_def selector_transfer methodId_transfer_call)
qed

lemma extract_duplicate_abi:
  "extractInfoFromABI word_codec transfer_call duplicate_abi = Inr (info_of transfer_duplicate transfer_values)"
proof -
  have "e_inputs transfer_entry = Some transfer_inputs" "e_inputs transfer_duplicate = Some transfer_inputs"
    by (simp_all add: transfer_entry_def transfer_duplicate_def)
  then show ?thesis
    by (simp add: extractInfoFromABI_def duplicate_abi_def extract_step_match token_abi_matches
        transfer_duplicate_matches transfer_types word_codec_transfer_call)
qed

lemma filter_duplicate_abi:
  "filter (selector_matches transfer_call) duplicate_abi = [transfer_entry, transfer_duplicate]"
  by (simp add: duplicate_abi_def token_abi_matches transfer_duplicate_matches)

text \<open>
  Claim C7 as stated fails: with two entries of the same selector, the resolver returns the
  data of the second one, not of the first.
\<close>

theorem first_match_does_not_win:
  "filter (selector_matches transfer_call) duplicate_abi = [transfer_entry, transfer_duplicate] \<and>
   extractInfoFromABI word_codec transfer_call duplicate_abi = Inr (info_of transfer_duplicate transfer_values) \<and>
   info_of transfer_duplicate transfer_values \<noteq> info_of transfer_entry transfer_values"
  by (simp add: filter_duplicate_abi extract_duplicate_abi)
     (simp add: info_of_def transfer_entry_def transfer_duplicate_def names_of_def param_def)

text \<open>
  Claim C7, amended. The resolver visits every entry and does not stop at a match: when it
  returns, the codec has decoded the input bytes for every matching entry, and the result
  is built from the last matching entry in array order (it is the no-match result when no
  entry matches); and it does return whenever the codec accepts the input bytes for every
  matching entry.
\<close>

theorem resolver_returns_last_match:
  "(extractInfoFromABI codec data abi = Inr ri \<longrightarrow>
      (case resolved_entry data abi of
         None \<Rightarrow> ri = no_match
       | Some e \<Rightarrow> \<exists>vals. codec (types_of (e_inputs e)) (Bytes (inputsBuf_of data)) = Inr vals \<and>
                        ri = info_of e vals) \<and>
      (\<forall>m\<in>set abi. selector_matches data m \<longrightarrow>
         (\<exists>vals. codec (types_of (e_inputs m)) (Bytes (inputsBuf_of data)) = Inr vals)))
   \<and> ((\<forall>m\<in>set abi. selector_matches data m \<longrightarrow>
          (\<exists>vals. codec (types_of (e_inputs m)) (Bytes (inputsBuf_of data)) = Inr vals)) \<longrightarrow>
        (\<exists>ri. extractInfoFromABI codec data abi = Inr ri))"
proof (intro conjI impI ballI)
  assume r: "extractInfoFromABI codec data abi = Inr ri"
  from reduce_result [OF r [unfolded extractInfoFromABI_def]]
  show "case resolved_entry data abi of
          None \<Rightarrow> ri = no_match
        | Some e \<Rightarrow> \<exists>vals. codec (types_of (e_inputs e)) (Bytes (inputsBuf_of data)) = Inr vals \<and>
                         ri = info_of e vals"
    by (cases "filter (selector_matches data) abi") (simp_all add: resolved_entry_def)
next
  fix m
  assume "extractInfoFromABI codec data abi = Inr ri" "m \<in> set abi" "selector_matches data m"
  then show "\<exists>vals. codec (types_of (e_inputs m)) (Bytes (inputsBuf_of data)) = Inr vals"
    unfolding extractInfoFromABI_def by (rule reduce_decodes_every_match)
next
  assume "\<forall>m\<in>set abi. selector_matches data m \<longrightarrow>
          (\<exists>vals. codec (types_of (e_inputs m)) (Bytes (inputsBuf_of data)) = Inr vals)"
  then show "\<exists>ri. extractInfoFromABI codec data abi = Inr ri"
    unfolding extractInfoFromABI_def by (rule reduce_returns)
qed

theorem resolver_returns_last_match_witness:
  "resolved_entry transfer_call duplicate_abi = Some transfer_duplicate \<and>
   (\<exists>vals. word_codec (types_of (e_inputs transfer_duplicate)) (Bytes (inputsBuf_of transfer_call)) = Inr vals \<and>
            info_of transfer_duplicate transfer_values = info_of transfer_duplicate vals)"
proof -
  have e: "resolved_entry transfer_call duplicate_abi = Some transfer_duplicate"
    by (simp add: resolved_entry_def filter_duplicate_abi)
  from resolver_returns_last_match
    [of word_codec transfer_call duplicate_abi "info_of transfer_duplicate transfer_values"]
    extract_duplicate_abi e
  show ?thesis by simp
qed

section \<open>Decoding outputs\<close>








lemma transfer_void_matches: "selector_matches transfer_call transfer_void"
proof -
  have "entry_method transfer_void = Some ''transfer''"
    by (simp add: entry_method_def transfer_void_def)
  moreover have "types_of (e_inputs transfer_void) = [Str ''address'', Str ''uint256'']"
    by (simp add: transfer_void_def transfer_types)
  moreover have "e_type transfer_void = Some ''function''"
    by (simp add: transfer_void_def)
  ultimately show ?thesis
    by (simp add: selector_matches_def selector_transfer methodId_transfer_call)
qed

lemma transfer_overload_no_match: "\<not> selector_matches transfer_call transfer_overload"
proof -
  have "entry_method transfer_overload = Some ''transfer''"
    by (simp add: entry_method_def transfer_overload_def)
  moreover have "types_of (e_inputs transfer_overload) = [Str ''address'']"
    by (simp add: transfer_overload_def types_of_def param_def type_value_def)
  ultimately show ?thesis
    by (simp add: selector_matches_def selector_transfer_address methodId_transfer_call)
qed

lemma extract_token_abi:
  "extractInfoFromABI word_codec transfer_call token_abi = Inr (info_of transfer_entry transfer_values)"
proof -
  have "e_inputs transfer_entry = Some transfer_inputs"
    by (simp add: transfer_entry_def)
  then show ?thesis
    by (simp add: extractInfoFromABI_def token_abi_def extract_step_match extract_step_no_match
        token_abi_matches transfer_types word_codec_transfer_call)
qed


lemma extract_overloaded_abi:
  "extractInfoFromABI word_codec transfer_call overloaded_abi = Inr (info_of transfer_void transfer_values)"
proof -
  have "e_inputs transfer_void = Some transfer_inputs"
    by (simp add: transfer_void_def)
  then show ?thesis
    by (simp add: extractInfoFromABI_def overloaded_abi_def extract_step_match extract_step_no_match
        transfer_void_matches transfer_overload_no_match transfer_types word_codec_transfer_call)
qed

lemma word_codec_word_one: "word_codec [Str ''bool''] (HexString word_one) = Inr [1]"
  by (simp add: word_codec_def word_one_def is_hex_def hex_digit_value_simps be_value_def)

text \<open>
  Claim C6. The claim asks that a call whose matched entry has no \<^verbatim>\<open>outputs\<close> field yields
  \<^verbatim>\<open>outputNames: {}\<close>, \<^verbatim>\<open>outputTypes: {}\<close> and \<^verbatim>\<open>decodedOutput: {_length: 0}\<close>. The code
  looks the entry up again by its name, so with an overloaded name it can find another
  entry: here the matched \<^verbatim>\<open>transfer(address,uint256)\<close> has no \<^verbatim>\<open>outputs\<close>, yet the
  result carries the output types of \<^verbatim>\<open>transfer(address)\<close> and a decoded value.
\<close>

theorem overload_lookup_by_name:
  "resolved_entry transfer_call overloaded_abi = Some transfer_void \<and>
   e_outputs transfer_void = None \<and>
   decodeResultFromData word_codec transfer_call word_one overloaded_abi =
     Inr \<lparr>methodName = Some ''transfer'', outputNames = JsArray [],
          outputTypes = JsArray [Str ''bool''],
          decodedOutput = OutObj \<lparr>obj_length = 1, obj_entries = [Some 1]\<rparr>\<rparr>"
proof -
  have "resolved_entry transfer_call overloaded_abi = Some transfer_void"
    by (simp add: resolved_entry_def overloaded_abi_def transfer_void_matches transfer_overload_no_match)
  moreover have "e_outputs transfer_void = None"
    by (simp add: transfer_void_def)
  moreover have "method' (info_of transfer_void transfer_values) = Some ''transfer''"
    "namesOutput (info_of transfer_void transfer_values) = []"
    by (simp_all add: info_of_def entry_method_def transfer_void_def names_of_def)
  moreover have "find (\<lambda>i. name_is_method (e_name i) (Some ''transfer'')) overloaded_abi = Some transfer_overload"
    by (simp add: overloaded_abi_def transfer_overload_def)
  moreover have "e_outputs transfer_overload = Some [param ''success'' ''bool'']"
    by (simp add: transfer_overload_def)
  moreover have "includes_0x word_one"
    by (simp add: word_one_def)
  ultimately show ?thesis
    using word_codec_word_one
    by (simp add: decodeResultFromData_def extract_overloaded_abi param_def type_value_def assemble_def)
qed

lemma decodeResult_degraded:
  assumes "extractInfoFromABI codec data abi = Inr ri"
    and "find (\<lambda>i. name_is_method (e_name i) (method' ri)) abi = Some functionABI"
    and "e_outputs functionABI = Some outs"
    and "\<not> includes_0x encodedResult"
  shows "decodeResultFromData codec data encodedResult abi =
           Inr \<lparr>methodName = method' ri,
                outputNames = JsArray (map null_if_falsy (namesOutput ri)),
                outputTypes = JsArray (map type_value outs),
                decodedOutput = OutStr (resMessage_of encodedResult)\<rparr>"
  using assms by (simp add: decodeResultFromData_def)


lemma find_token_abi:
  "find (\<lambda>i. name_is_method (e_name i) (method' (info_of transfer_entry transfer_values))) token_abi
     = Some transfer_entry"
  by (simp add: token_abi_def info_of_def entry_method_def transfer_entry_def transfer_event_def)



section \<open>Cardinalities\<close>

lemma extract_result:
  "extractInfoFromABI codec data abi = Inr ri \<Longrightarrow>
   (case resolved_entry data abi of
      None \<Rightarrow> ri = no_match
    | Some e \<Rightarrow> \<exists>vals. codec (types_of (e_inputs e)) (Bytes (inputsBuf_of data)) = Inr vals \<and>
                     ri = info_of e vals)"
  using reduce_result [of codec data "inputsBuf_of data" no_match abi ri]
  by (cases "filter (selector_matches data) abi") (simp_all add: resolved_entry_def extractInfoFromABI_def)

lemma length_names_of [simp]: "length (names_of ps) = param_count ps"
  by (simp add: names_of_def param_count_def split: option.splits)

lemma length_types_of [simp]: "length (types_of ps) = param_count ps"
  by (simp add: types_of_def param_count_def split: option.splits)

lemma assemble_counts [simp]:
  "obj_length (assemble n vals) = n" "length (obj_entries (assemble n vals)) = n"
  by (simp_all add: assemble_def)

lemma decodeInput_counts:
  assumes "decodeInputFromData codec data abi = Inr r"
  shows "length (inputNames r) = (case resolved_entry data abi of None \<Rightarrow> 0 | Some e \<Rightarrow> param_count (e_inputs e)) \<and>
         length (inputTypes r) = length (inputNames r) \<and>
         obj_length (decodedInput r) = length (inputNames r) \<and>
         length (obj_entries (decodedInput r)) = length (inputNames r)"
proof -
  from assms obtain ri where ri: "extractInfoFromABI codec data abi = Inr ri"
    and r: "r = \<lparr>methodName = method' ri, inputNames = namesInput ri, inputTypes = typesInput ri,
                 decodedInput = assemble (length (namesInput ri)) (inputs ri)\<rparr>"
    by (auto simp: decodeInputFromData_def Let_def split: sum.splits)
  from extract_result [OF ri] show ?thesis
    unfolding r by (cases "resolved_entry data abi") (auto simp: no_match_def info_of_def)
qed

lemma decodeResult_counts:
  assumes q: "decodeResultFromData codec data encodedResult abi = Inr q"
    and e: "resolved_entry data abi = Some e"
    and f: "find (\<lambda>i. name_is_method (e_name i) (entry_method e)) abi = Some e"
  shows "collection_count (outputNames q) = param_count (e_outputs e) \<and>
         collection_count (outputTypes q) = param_count (e_outputs e) \<and>
         (e_outputs e = None \<or> includes_0x encodedResult \<longrightarrow>
            (\<exists>obj. decodedOutput q = OutObj obj \<and> obj_length obj = param_count (e_outputs e) \<and>
                   length (obj_entries obj) = param_count (e_outputs e))) \<and>
         (e_outputs e \<noteq> None \<and> \<not> includes_0x encodedResult \<longrightarrow>
            decodedOutput q = OutStr (resMessage_of encodedResult))"
proof -
  from q obtain ri where ri: "extractInfoFromABI codec data abi = Inr ri"
    by (auto simp: decodeResultFromData_def split: sum.splits)
  from extract_result [OF ri] e obtain vals where i: "ri = info_of e vals"
    by auto
  then have m: "method' ri = entry_method e" and n: "namesOutput ri = names_of (e_outputs e)"
    by (simp_all add: info_of_def)
  show ?thesis
  proof (cases "e_outputs e")
    case None
    with q ri f m show ?thesis
      by (auto simp: decodeResultFromData_def param_count_def)
  next
    case (Some outs)
    with q ri f m n show ?thesis
      by (auto simp: decodeResultFromData_def param_count_def names_of_def Let_def
          split: if_splits sum.splits)
  qed
qed

text \<open>
  Claim C9, amended. A successful \<^verbatim>\<open>decodeInputFromData\<close> returns a name list, a type list
  and a value collection of the same cardinality, the length of the input list of the
  resolved entry (0 when no entry matches). A successful \<^verbatim>\<open>decodeResultFromData\<close> whose
  lookup by name finds the resolved entry returns a name list and a type list of the
  cardinality of that entry's output list (both empty without an \<^verbatim>\<open>outputs\<close> field); the
  value collection has the same cardinality when there is no \<^verbatim>\<open>outputs\<close> field or the
  result string contains \<^verbatim>\<open>0x\<close>, and otherwise \<^verbatim>\<open>decodedOutput\<close> is the plain string of the
  degraded path.
\<close>

theorem decoded_cardinalities:
  "(decodeInputFromData codec data abi = Inr r \<longrightarrow>
      length (inputNames r) =
        (case resolved_entry data abi of None \<Rightarrow> 0 | Some e \<Rightarrow> param_count (e_inputs e)) \<and>
      length (inputTypes r) = length (inputNames r) \<and>
      obj_length (decodedInput r) = length (inputNames r) \<and>
      length (obj_entries (decodedInput r)) = length (inputNames r))
   \<and> (decodeResultFromData codec data encodedResult abi = Inr q \<and>
       resolved_entry data abi = Some e \<and>
       find (\<lambda>i. name_is_method (e_name i) (entry_method e)) abi = Some e \<longrightarrow>
         collection_count (outputNames q) = param_count (e_outputs e) \<and>
         collection_count (outputTypes q) = param_count (e_outputs e) \<and>
         (e_outputs e = None \<or> includes_0x encodedResult \<longrightarrow>
            (\<exists>obj. decodedOutput q = OutObj obj \<and> obj_length obj = param_count (e_outputs e) \<and>
                   length (obj_entries obj) = param_count (e_outputs e))) \<and>
         (e_outputs e \<noteq> None \<and> \<not> includes_0x encodedResult \<longrightarrow>
            decodedOutput q = OutStr (resMessage_of encodedResult)))"
  using decodeInput_counts [of codec data abi r] decodeResult_counts [of codec data encodedResult abi q e]
  by blast

lemma resolved_token_abi: "resolved_entry transfer_call token_abi = Some transfer_entry"
  by (simp add: resolved_entry_def token_abi_def token_abi_matches)

lemma decodeResult_token_word_one:
  "decodeResultFromData word_codec transfer_call word_one token_abi =
     Inr \<lparr>methodName = Some ''transfer'', outputNames = JsArray [NameStr ''success''],
          outputTypes = JsArray [Str ''bool''],
          decodedOutput = OutObj \<lparr>obj_length = 1, obj_entries = [Some 1]\<rparr>\<rparr>"
proof -
  have "e_outputs transfer_entry = Some [param ''success'' ''bool'']"
    by (simp add: transfer_entry_def)
  moreover have "includes_0x word_one"
    by (simp add: word_one_def)
  ultimately show ?thesis
    using find_token_abi word_codec_word_one
    by (simp add: decodeResultFromData_def extract_token_abi param_def type_value_def assemble_def)
       (simp add: info_of_def entry_method_def transfer_entry_def names_of_def param_def)
qed

lemma decodeInput_token:
  "decodeInputFromData word_codec transfer_call token_abi =
     Inr \<lparr>methodName = Some ''transfer'', inputNames = [NameStr ''to'', NameStr ''value''],
          inputTypes = [Str ''address'', Str ''uint256''],
          decodedInput = \<lparr>obj_length = 2,
            obj_entries = [Some 0x8f476d1155e9910a885cae1c4396bdd392c3883e, Some 1000]\<rparr>\<rparr>"
  by (simp add: decodeInputFromData_def extract_token_abi)
     (simp add: info_of_def entry_method_def transfer_entry_def names_of_def transfer_inputs_def
        param_def types_of_def type_value_def assemble_def transfer_values_def upt_rec)

theorem decoded_cardinalities_witness:
  "length (inputNames
      \<lparr>methodName = Some ''transfer'', inputNames = [NameStr ''to'', NameStr ''value''],
       inputTypes = [Str ''address'', Str ''uint256''],
       decodedInput = \<lparr>obj_length = 2,
         obj_entries = [Some (0x8f476d1155e9910a885cae1c4396bdd392c3883e :: nat), Some 1000]\<rparr>\<rparr>) =
     param_count (e_inputs transfer_entry) \<and>
   collection_count (JsArray [NameStr ''success'']) = param_count (e_outputs transfer_entry) \<and>
   collection_count (JsArray [Str ''bool'']) = param_count (e_outputs transfer_entry)"
proof -
  let ?r = "\<lparr>methodName = Some ''transfer'', inputNames = [NameStr ''to'', NameStr ''value''],
       inputTypes = [Str ''address'', Str ''uint256''],
       decodedInput = \<lparr>obj_length = 2,
         obj_entries = [Some (0x8f476d1155e9910a885cae1c4396bdd392c3883e :: nat), Some 1000]\<rparr>\<rparr>"
  let ?q = "\<lparr>methodName = Some ''transfer'', outputNames = JsArray [NameStr ''success''],
          outputTypes = JsArray [Str ''bool''],
          decodedOutput = OutObj \<lparr>obj_length = 1, obj_entries = [Some (1 :: nat)]\<rparr>\<rparr>"
  have "find (\<lambda>i. name_is_method (e_name i) (entry_method transfer_entry)) token_abi = Some transfer_entry"
    using find_token_abi by (simp add: info_of_def)
  with decoded_cardinalities
    [of word_codec transfer_call token_abi ?r word_one ?q transfer_entry]
    decodeInput_token decodeResult_token_word_one resolved_token_abi
  show ?thesis by simp
qed

text \<open>
  Claim C9 as stated fails on the degraded path: for the empty result string the entry
  has one output, one name and one type, and \<^verbatim>\<open>decodedOutput\<close> is the empty string.
\<close>

theorem degraded_output_is_no_collection:
  "decodeResultFromData word_codec transfer_call [] token_abi =
     Inr \<lparr>methodName = Some ''transfer'', outputNames = JsArray [NameStr ''success''],
          outputTypes = JsArray [Str ''bool''], decodedOutput = OutStr []\<rparr> \<and>
   value_count (OutStr [] :: nat decoded_output) \<noteq> collection_count (JsArray [NameStr ''success''])"
proof -
  have o: "e_outputs transfer_entry = Some [param ''success'' ''bool'']"
    by (simp add: transfer_entry_def)
  have n: "\<not> includes_0x []"
    by simp
  from decodeResult_degraded [OF extract_token_abi find_token_abi o n]
  show ?thesis
    by (simp add: info_of_def entry_method_def transfer_entry_def names_of_def param_def
        type_value_def resMessage_of_def)
qed

end
